theory Spec2Isabelle
  imports Complex_Main "HOL-Library.AList"
begin

unbundle bit_operations_syntax

section \<open>Python values, exceptions and outcomes of a call\<close>

text \<open>
  The two modules are dynamically typed Python. A value that the code only stores and
  passes on (a waypoint field, a dictionary entry, an argument of a send call) is a
  \<open>pyval\<close>. Python floats are modelled by exact reals: rounding of the binary
  representation is outside this development.
\<close>

datatype pyval = PNone | PBool bool | PInt int | PFloat real | PStr string

datatype exn =
    NameError string
  | AttributeError string
  | TypeError
  | KeyError string
  | LinkError

text \<open>
  A method call either never returns (a blocking receive on a link that delivers nothing
  more), raises an exception, or returns a value. The object's state survives a raise,
  since Python mutates in place.
\<close>

datatype ('a, 's) res = Hangs | Raises exn 's | Returns 'a 's

fun then_do :: "('a, 's) res \<Rightarrow> ('a \<Rightarrow> 's \<Rightarrow> ('b, 's) res) \<Rightarrow> ('b, 's) res" where
  "then_do Hangs f = Hangs"
| "then_do (Raises e s) f = Raises e s"
| "then_do (Returns a s) f = f a s"

text \<open>\<open>try: body except Exception as e: handler\<close>\<close>

fun try_except :: "('a, 's) res \<Rightarrow> (exn \<Rightarrow> 's \<Rightarrow> ('a, 's) res) \<Rightarrow> ('a, 's) res" where
  "try_except Hangs f = Hangs"
| "try_except (Raises e s) f = f e s"
| "try_except (Returns a s) f = Returns a s"

type_synonym dict = "(string \<times> pyval) list"

text \<open>\<open>d.get(k, default)\<close> on a dictionary kept as an association list in insertion order.\<close>

definition dict_get :: "dict \<Rightarrow> string \<Rightarrow> pyval \<Rightarrow> pyval" where
  "dict_get d k dflt = (case map_of d k of None \<Rightarrow> dflt | Some v \<Rightarrow> v)"

fun truthy :: "pyval \<Rightarrow> bool" where
  "truthy PNone = False"
| "truthy (PBool b) = b"
| "truthy (PInt i) = (i \<noteq> 0)"
| "truthy (PFloat r) = (r \<noteq> 0)"
| "truthy (PStr s) = (s \<noteq> [])"

section \<open>Constants of the MAVLink common dialect (pymavlink's \<open>mavutil.mavlink\<close>)\<close>

definition MAV_CMD_NAV_WAYPOINT :: int where "MAV_CMD_NAV_WAYPOINT = 16"
definition MAV_CMD_NAV_LOITER_TIME :: int where "MAV_CMD_NAV_LOITER_TIME = 19"
definition MAV_CMD_NAV_RETURN_TO_LAUNCH :: int where "MAV_CMD_NAV_RETURN_TO_LAUNCH = 20"
definition MAV_CMD_NAV_LAND :: int where "MAV_CMD_NAV_LAND = 21"
definition MAV_CMD_NAV_TAKEOFF :: int where "MAV_CMD_NAV_TAKEOFF = 22"
definition MAV_CMD_MISSION_START :: int where "MAV_CMD_MISSION_START = 300"
definition MAV_CMD_COMPONENT_ARM_DISARM :: int where "MAV_CMD_COMPONENT_ARM_DISARM = 400"
definition MAV_MODE_FLAG_SAFETY_ARMED :: int where "MAV_MODE_FLAG_SAFETY_ARMED = 128"
definition MAV_MODE_FLAG_CUSTOM_MODE_ENABLED :: int where "MAV_MODE_FLAG_CUSTOM_MODE_ENABLED = 1"
definition MAV_FRAME_GLOBAL_RELATIVE_ALT :: int where "MAV_FRAME_GLOBAL_RELATIVE_ALT = 3"
definition MAV_MISSION_TYPE_MISSION :: int where "MAV_MISSION_TYPE_MISSION = 0"
definition MAV_PARAM_TYPE_REAL32 :: int where "MAV_PARAM_TYPE_REAL32 = 9"

section \<open>Frames\<close>

text \<open>
  Decoded inbound frames, as the codec hands them over: the kinds the handler names, with
  the fields it reads, and \<open>OTHER\<close> for a frame of any other kind.

  \<open>HEARTBEAT base_mode custom_mode\<close>, \<open>GLOBAL_POSITION_INT lat lon alt hdg\<close>,
  \<open>VFR_HUD groundspeed\<close>, \<open>SYS_STATUS voltage_battery battery_remaining\<close>,
  \<open>MISSION_ACK type\<close>, \<open>MISSION_REQUEST target_system target_component seq\<close>,
  \<open>PARAM_VALUE param_id param_value param_count param_index\<close> (count and index are
  unsigned on the wire), \<open>PARAM_EXT_VALUE param_id param_value param_count param_index\<close>.
\<close>

datatype msg =
    HEARTBEAT int int
  | GLOBAL_POSITION_INT int int int int
  | VFR_HUD real
  | SYS_STATUS int int
  | MISSION_ACK int
  | MISSION_REQUEST int int int
  | PARAM_VALUE string real nat nat
  | PARAM_EXT_VALUE string string nat nat
  | OTHER string

fun get_type :: "msg \<Rightarrow> string" where
  "get_type (HEARTBEAT _ _) = ''HEARTBEAT''"
| "get_type (GLOBAL_POSITION_INT _ _ _ _) = ''GLOBAL_POSITION_INT''"
| "get_type (VFR_HUD _) = ''VFR_HUD''"
| "get_type (SYS_STATUS _ _) = ''SYS_STATUS''"
| "get_type (MISSION_ACK _) = ''MISSION_ACK''"
| "get_type (MISSION_REQUEST _ _ _) = ''MISSION_REQUEST''"
| "get_type (PARAM_VALUE _ _ _ _) = ''PARAM_VALUE''"
| "get_type (PARAM_EXT_VALUE _ _ _ _) = ''PARAM_EXT_VALUE''"
| "get_type (OTHER n) = n"

text \<open>
  The codec gives every frame the fields of its kind. A value \<open>OTHER n\<close> that carries the
  name of a kind above would be an object of that name without its fields; reading a
  field of it raises \<open>AttributeError\<close> in the model as it would in Python.
\<close>

definition named_kinds :: "string list" where
  "named_kinds = [''HEARTBEAT'', ''GLOBAL_POSITION_INT'', ''VFR_HUD'', ''SYS_STATUS'',
     ''MISSION_ACK'', ''MISSION_REQUEST'', ''PARAM_VALUE'', ''PARAM_EXT_VALUE'']"

fun well_formed :: "msg \<Rightarrow> bool" where
  "well_formed (OTHER n) = (n \<notin> set named_kinds)"
| "well_formed _ = True"

text \<open>
  What the link delivers, in order: a frame; a moment with nothing to read (a
  non-blocking receive returns \<open>None\<close>, a blocking one keeps waiting); or a read error.
  After the last event nothing arrives any more.
\<close>

datatype event = Frame msg | Idle | Fault

fun well_formed_event :: "event \<Rightarrow> bool" where
  "well_formed_event (Frame m) = well_formed m"
| "well_formed_event _ = True"

text \<open>
  Outbound frames, each with the arguments of the send call in the order the handler
  passes them. \<open>MISSION_ITEM\<close> has the fourteen positional arguments of the call in
  \<open>upload_mission\<close>: target system, target component, sequence number, frame, command,
  current, autocontinue, three parameters, and the four values that follow.
\<close>

datatype out_frame =
    COMMAND_LONG int int int int "int list"
  | SET_MODE int int int
  | MISSION_CLEAR_ALL int int
  | MISSION_COUNT int int int int
  | MISSION_ITEM int int int pyval int int int pyval pyval pyval pyval pyval pyval int
  | PARAM_REQUEST_LIST
  | PARAM_SET string real int int int

fun item_seq :: "out_frame \<Rightarrow> int option" where
  "item_seq (MISSION_ITEM _ _ s _ _ _ _ _ _ _ _ _ _ _) = Some s"
| "item_seq _ = None"

fun item_command :: "out_frame \<Rightarrow> int option" where
  "item_command (MISSION_ITEM _ _ _ _ c _ _ _ _ _ _ _ _ _) = Some c"
| "item_command _ = None"

fun item_param1 :: "out_frame \<Rightarrow> pyval option" where
  "item_param1 (MISSION_ITEM _ _ _ _ _ _ _ p1 _ _ _ _ _ _) = Some p1"
| "item_param1 _ = None"

section \<open>\<open>mavlink_handler.py\<close>: \<open>TelemetryData\<close> and \<open>MavlinkHandler\<close>\<close>

record telemetry_data =
  latitude :: real
  longitude :: real
  altitude :: real
  heading :: real
  groundspeed :: real
  battery_voltage :: real
  battery_remaining :: real
  mode :: string
  armed :: bool
  system_status :: string
  timestamp :: real

text \<open>
  The handler object after \<open>connect\<close> (opening the transport and waiting for the first
  heartbeat are not part of this development). The fields \<open>inbox\<close>, \<open>sent\<close>, \<open>params\<close> and
  \<open>tx_up\<close> are the state of \<open>self.master\<close>: the events the link will still deliver, the
  frames handed to it so far, the library's parameter cache \<open>self.master.params\<close>, and
  whether a send succeeds. \<open>ticks\<close> counts the readings of \<open>time.time()\<close> taken so far;
  the clock itself is a parameter \<open>now\<close> of the operations that read it, the \<open>k\<close>-th
  reading being \<open>now k\<close>. The field \<open>connected\<close> is written \<open>connected_h\<close>.
\<close>

record handler =
  source_system :: int
  source_component :: int
  connected_h :: bool
  heartbeat_timeout :: real
  last_heartbeat :: real
  vehicle_system :: int
  vehicle_component :: int
  telemetry :: telemetry_data
  parameters :: "(string \<times> real) list"
  inbox :: "event list"
  sent :: "out_frame list"
  params :: "(string \<times> real) list"
  tx_up :: bool
  ticks :: nat

text \<open>
  Modelled from the spec: the parameter cache of the external library. The handler
  returns \<open>self.master.params\<close>, which the library fills as frames are received; the spec
  describes it as the name-to-value mapping built from every parameter-value frame seen.
\<close>

fun param_cache :: "msg \<Rightarrow> (string \<times> real) list \<Rightarrow> (string \<times> real) list" where
  "param_cache (PARAM_VALUE name v _ _) ps = AList.update name v ps"
| "param_cache _ ps = ps"

definition post_message :: "msg \<Rightarrow> handler \<Rightarrow> handler" where
  "post_message m h = h\<lparr>params := param_cache m (params h)\<rparr>"

text \<open>A send call of \<open>self.master.mav\<close>: the frame is handed to the link, or the call raises.\<close>

definition send :: "out_frame \<Rightarrow> handler \<Rightarrow> (unit, handler) res" where
  "send f h = (if tx_up h then Returns () (h\<lparr>sent := sent h @ [f]\<rparr>) else Raises LinkError h)"

text \<open>
  \<open>self.master.recv_match(type=ty, blocking=bl)\<close>: frames whose kind is not in \<open>ty\<close> are
  read and dropped; with nothing to read a non-blocking call returns \<open>None\<close> and a
  blocking call waits. Recursion is on the events left, which are also the field
  \<open>inbox\<close> of the state at every step.
\<close>

fun recv_scan :: "string list option \<Rightarrow> bool \<Rightarrow> event list \<Rightarrow> handler \<Rightarrow> (msg option, handler) res" where
  "recv_scan ty bl [] h = (if bl then Hangs else Returns None (h\<lparr>inbox := []\<rparr>))"
| "recv_scan ty bl (Idle # evs) h =
     (if bl then recv_scan ty bl evs (h\<lparr>inbox := evs\<rparr>) else Returns None (h\<lparr>inbox := evs\<rparr>))"
| "recv_scan ty bl (Fault # evs) h = Raises LinkError (h\<lparr>inbox := evs\<rparr>)"
| "recv_scan ty bl (Frame m # evs) h =
     (let h' = (post_message m h)\<lparr>inbox := evs\<rparr> in
      if (case ty of None \<Rightarrow> True | Some ts \<Rightarrow> get_type m \<in> set ts)
      then Returns (Some m) h'
      else recv_scan ty bl evs h')"

definition recv_match :: "string list option \<Rightarrow> bool \<Rightarrow> handler \<Rightarrow> (msg option, handler) res" where
  "recv_match ty bl h = recv_scan ty bl (inbox h) h"

subsection \<open>The mode-name table\<close>

text \<open>
  Lines 126 and 187 read the module attribute \<open>mavutil.mode_mapping\<close> of the external
  library. It is a parameter of the operations that read it: \<open>Some table\<close> is a
  dictionary from mode name to number, in insertion order; \<open>None\<close> is a library module
  without that attribute, where the read raises \<open>AttributeError\<close>.
\<close>

type_synonym mode_table = "(string \<times> int) list option"

text \<open>
  pymavlink as released: its module \<open>mavutil\<close> has the method \<open>mode_mapping()\<close> of the
  connection object and the functions \<open>mode_mapping_byname\<close> and
  \<open>mode_mapping_bynumber\<close>, and no module attribute \<open>mode_mapping\<close>.
\<close>

definition pymavlink_mode_mapping :: mode_table where
  "pymavlink_mode_mapping = None"

subsection \<open>\<open>_process_message\<close>\<close>

definition process_message ::
  "mode_table \<Rightarrow> (nat \<Rightarrow> real) \<Rightarrow> msg \<Rightarrow> handler \<Rightarrow> (unit, handler) res" where
  "process_message mode_mapping now m h =
    (let msg_type = get_type m in
     if msg_type = ''HEARTBEAT'' then
       (let h1 = h\<lparr>last_heartbeat := now (ticks h), ticks := ticks h + 1\<rparr> in
        case m of
          HEARTBEAT base_mode custom_mode \<Rightarrow>
            (let h2 = h1\<lparr>telemetry := (telemetry h1)
                        \<lparr>armed := (base_mode AND MAV_MODE_FLAG_SAFETY_ARMED \<noteq> 0)\<rparr>\<rparr>;
                 h3 = h2\<lparr>telemetry := (telemetry h2)\<lparr>timestamp := now (ticks h2)\<rparr>,
                         ticks := ticks h2 + 1\<rparr>
             in case mode_mapping of
                  None \<Rightarrow> Raises (AttributeError ''mode_mapping'') h3
                | Some table \<Rightarrow>
                    (let mode_name = map fst (filter (\<lambda>kv. snd kv = custom_mode) table)
                     in Returns () (h3\<lparr>telemetry := (telemetry h3)
                          \<lparr>mode := (case mode_name of [] \<Rightarrow> ''UNKNOWN'' | k # _ \<Rightarrow> k)\<rparr>\<rparr>)))
        | _ \<Rightarrow> Raises (AttributeError ''base_mode'') h1)
     else if msg_type = ''GLOBAL_POSITION_INT'' then
       (case m of
          GLOBAL_POSITION_INT lat lon alt hdg \<Rightarrow>
            Returns () (h\<lparr>telemetry := (telemetry h)
              \<lparr>latitude := real_of_int lat / 10000000,
               longitude := real_of_int lon / 10000000,
               altitude := real_of_int alt / 1000,
               heading := real_of_int hdg / 100\<rparr>\<rparr>)
        | _ \<Rightarrow> Raises (AttributeError ''lat'') h)
     else if msg_type = ''VFR_HUD'' then
       (case m of
          VFR_HUD gs \<Rightarrow> Returns () (h\<lparr>telemetry := (telemetry h)\<lparr>groundspeed := gs\<rparr>\<rparr>)
        | _ \<Rightarrow> Raises (AttributeError ''groundspeed'') h)
     else if msg_type = ''SYS_STATUS'' then
       (case m of
          SYS_STATUS voltage_battery remaining \<Rightarrow>
            Returns () (h\<lparr>telemetry := (telemetry h)
              \<lparr>battery_voltage := real_of_int voltage_battery / 1000,
               battery_remaining := real_of_int remaining\<rparr>\<rparr>)
        | _ \<Rightarrow> Raises (AttributeError ''voltage_battery'') h)
     else Returns () h)"

subsection \<open>\<open>update_telemetry\<close>\<close>

text \<open>
  The loop of lines 96 to 101: a non-blocking, unfiltered receive until it returns
  \<open>None\<close>, each frame handed to \<open>_process_message\<close>. Recursion is on the events left.
\<close>

fun drain ::
  "mode_table \<Rightarrow> (nat \<Rightarrow> real) \<Rightarrow> event list \<Rightarrow> handler \<Rightarrow> (unit, handler) res" where
  "drain mode_mapping now [] h = Returns () (h\<lparr>inbox := []\<rparr>)"
| "drain mode_mapping now (Idle # evs) h = Returns () (h\<lparr>inbox := evs\<rparr>)"
| "drain mode_mapping now (Fault # evs) h = Raises LinkError (h\<lparr>inbox := evs\<rparr>)"
| "drain mode_mapping now (Frame m # evs) h =
     then_do (process_message mode_mapping now m ((post_message m h)\<lparr>inbox := evs\<rparr>))
       (\<lambda>_ h'. drain mode_mapping now evs h')"

definition update_telemetry ::
  "mode_table \<Rightarrow> (nat \<Rightarrow> real) \<Rightarrow> handler \<Rightarrow> (bool, handler) res" where
  "update_telemetry mode_mapping now h =
    (if \<not> connected_h h then Returns False h
     else try_except
       (then_do (drain mode_mapping now (inbox h) h) (\<lambda>_ h1.
          let t = now (ticks h1); h2 = h1\<lparr>ticks := ticks h1 + 1\<rparr> in
          if t - last_heartbeat h2 > heartbeat_timeout h2
          then Returns False (h2\<lparr>connected_h := False\<rparr>)
          else Returns True h2))
       (\<lambda>e h1. Returns False (h1\<lparr>connected_h := False\<rparr>)))"

subsection \<open>Commands\<close>

definition arm :: "handler \<Rightarrow> (bool, handler) res" where
  "arm h =
    (if \<not> connected_h h then Returns False h
     else try_except
       (then_do (send (COMMAND_LONG (vehicle_system h) (vehicle_component h)
                   MAV_CMD_COMPONENT_ARM_DISARM 0 [1, 0, 0, 0, 0, 0, 0]) h)
          (\<lambda>_ h1. Returns True h1))
       (\<lambda>e h1. Returns False h1))"

definition disarm :: "handler \<Rightarrow> (bool, handler) res" where
  "disarm h =
    (if \<not> connected_h h then Returns False h
     else try_except
       (then_do (send (COMMAND_LONG (vehicle_system h) (vehicle_component h)
                   MAV_CMD_COMPONENT_ARM_DISARM 0 [0, 0, 0, 0, 0, 0, 0]) h)
          (\<lambda>_ h1. Returns True h1))
       (\<lambda>e h1. Returns False h1))"

definition set_mode :: "mode_table \<Rightarrow> string \<Rightarrow> handler \<Rightarrow> (bool, handler) res" where
  "set_mode mode_mapping name h =
    (if \<not> connected_h h then Returns False h
     else try_except
       (case mode_mapping of
          None \<Rightarrow> Raises (AttributeError ''mode_mapping'') h
        | Some table \<Rightarrow>
            if name \<notin> set (map fst table) then Returns False h
            else case map_of table name of
              None \<Rightarrow> Raises (KeyError name) h
            | Some mode_id \<Rightarrow>
                then_do (send (SET_MODE (vehicle_system h) MAV_MODE_FLAG_CUSTOM_MODE_ENABLED
                           mode_id) h)
                  (\<lambda>_ h1. Returns True h1))
       (\<lambda>e h1. Returns False h1))"

definition start_mission :: "handler \<Rightarrow> (bool, handler) res" where
  "start_mission h =
    (if \<not> connected_h h then Returns False h
     else try_except
       (then_do (send (COMMAND_LONG (vehicle_system h) (vehicle_component h)
                   MAV_CMD_MISSION_START 0 [0, 0, 0, 0, 0, 0, 0]) h)
          (\<lambda>_ h1. Returns True h1))
       (\<lambda>e h1. Returns False h1))"

definition set_parameter :: "string \<Rightarrow> real \<Rightarrow> handler \<Rightarrow> (bool, handler) res" where
  "set_parameter name v h =
    (if \<not> connected_h h then Returns False h
     else try_except
       (then_do (send (PARAM_SET name v MAV_PARAM_TYPE_REAL32 (- 1) (- 1)) h)
          (\<lambda>_ h1. Returns True h1))
       (\<lambda>e h1. Returns False h1))"

subsection \<open>\<open>upload_mission\<close>\<close>

text \<open>
  Lines 226 to 230: blocking receives filtered on \<open>MISSION_REQUEST\<close> until one is
  addressed to the station's own system and component id.
\<close>

fun await_request :: "event list \<Rightarrow> handler \<Rightarrow> (unit, handler) res" where
  "await_request [] h = Hangs"
| "await_request (Idle # evs) h = await_request evs (h\<lparr>inbox := evs\<rparr>)"
| "await_request (Fault # evs) h = Raises LinkError (h\<lparr>inbox := evs\<rparr>)"
| "await_request (Frame m # evs) h =
     (let h' = (post_message m h)\<lparr>inbox := evs\<rparr> in
      if get_type m \<in> set [''MISSION_REQUEST''] then
        (case m of
           MISSION_REQUEST target_system target_component sq \<Rightarrow>
             if target_system = source_system h' \<and> target_component = source_component h'
             then Returns () h'
             else await_request evs h'
         | _ \<Rightarrow> Raises (AttributeError ''target_system'') h')
      else await_request evs h')"

text \<open>
  Lines 233 to 251: the loop over \<open>enumerate(waypoints)\<close>. \<open>mission_item\<close> is the frame
  of the call on lines 234 to 246: the command argument is the constant
  \<open>MAV_CMD_NAV_WAYPOINT\<close> and the autocontinue argument is \<open>1 if i == 0 else 0\<close>; the keys
  \<open>command\<close>, \<open>autocontinue\<close> and \<open>p4\<close> of the dictionary are not read.
\<close>

definition mission_item :: "int \<Rightarrow> int \<Rightarrow> nat \<Rightarrow> dict \<Rightarrow> out_frame" where
  "mission_item vs vc i wp =
     MISSION_ITEM vs vc
       (int i)
       (dict_get wp ''frame'' (PInt MAV_FRAME_GLOBAL_RELATIVE_ALT))
       MAV_CMD_NAV_WAYPOINT
       0
       (if i = 0 then 1 else 0)
       (dict_get wp ''p1'' (PInt 0)) (dict_get wp ''p2'' (PInt 0)) (dict_get wp ''p3'' (PInt 0))
       (dict_get wp ''x'' (PInt 0))
       (dict_get wp ''y'' (PInt 0))
       (dict_get wp ''z'' (PInt 10))
       MAV_MISSION_TYPE_MISSION"

fun send_items :: "nat \<Rightarrow> dict list \<Rightarrow> handler \<Rightarrow> (unit, handler) res" where
  "send_items i [] h = Returns () h"
| "send_items i (wp # wps) h =
     then_do (send (mission_item (vehicle_system h) (vehicle_component h) i wp) h) (\<lambda>_ h1.
     then_do (recv_match (Some [''MISSION_REQUEST'', ''MISSION_ACK'']) True h1) (\<lambda>r h2.
       case r of
         None \<Rightarrow> Raises (AttributeError ''get_type'') h2
       | Some m \<Rightarrow>
           if get_type m = ''MISSION_ACK'' then Returns () h2
           else send_items (i + 1) wps h2))"

definition upload_mission :: "dict list \<Rightarrow> handler \<Rightarrow> (bool, handler) res" where
  "upload_mission waypoints h =
    (if \<not> connected_h h then Returns False h
     else try_except
       (then_do (send (MISSION_CLEAR_ALL (vehicle_system h) (vehicle_component h)) h) (\<lambda>_ h1.
        then_do (recv_match (Some [''MISSION_ACK'']) True h1) (\<lambda>_ h2.
        then_do (send (MISSION_COUNT (vehicle_system h2) (vehicle_component h2)
                   (int (length waypoints)) 0) h2) (\<lambda>_ h3.
        then_do (await_request (inbox h3) h3) (\<lambda>_ h4.
        then_do (send_items 0 waypoints h4) (\<lambda>_ h5.
        Returns True h5))))))
       (\<lambda>e h1. Returns False h1))"

subsection \<open>\<open>get_parameters\<close>\<close>

text \<open>
  Lines 287 to 291: blocking receives filtered on \<open>PARAM_VALUE\<close> and \<open>PARAM_EXT_VALUE\<close>
  until a \<open>PARAM_VALUE\<close> has \<open>param_count > 0\<close> and \<open>param_index == param_count - 1\<close>
  (computed on Python's integers).
\<close>

fun await_last_param :: "event list \<Rightarrow> handler \<Rightarrow> (unit, handler) res" where
  "await_last_param [] h = Hangs"
| "await_last_param (Idle # evs) h = await_last_param evs (h\<lparr>inbox := evs\<rparr>)"
| "await_last_param (Fault # evs) h = Raises LinkError (h\<lparr>inbox := evs\<rparr>)"
| "await_last_param (Frame m # evs) h =
     (let h' = (post_message m h)\<lparr>inbox := evs\<rparr> in
      if get_type m \<in> set [''PARAM_VALUE'', ''PARAM_EXT_VALUE''] then
        if get_type m = ''PARAM_VALUE'' then
          (case m of
             PARAM_VALUE name v param_count param_index \<Rightarrow>
               if param_count > 0 \<and> int param_index = int param_count - 1
               then Returns () h'
               else await_last_param evs h'
           | _ \<Rightarrow> Raises (AttributeError ''param_count'') h')
        else await_last_param evs h'
      else await_last_param evs h')"

text \<open>
  Modelled from the spec: \<open>self.master.param_fetch_all()\<close> of the external library sends
  a parameter-list request.
\<close>

definition param_fetch_all :: "handler \<Rightarrow> (unit, handler) res" where
  "param_fetch_all h = send PARAM_REQUEST_LIST h"

definition get_parameters :: "handler \<Rightarrow> ((string \<times> real) list, handler) res" where
  "get_parameters h =
    (if \<not> connected_h h then Returns [] h
     else try_except
       (then_do (param_fetch_all h) (\<lambda>_ h1.
        then_do (await_last_param (inbox h1) h1) (\<lambda>_ h2.
          let h3 = h2\<lparr>parameters := params h2\<rparr> in Returns (parameters h3) h3)))
       (\<lambda>e h1. Returns [] h1))"

section \<open>\<open>mission_planner.py\<close>: \<open>Waypoint\<close> and \<open>MissionPlanner\<close>\<close>

text \<open>
  The dataclass \<open>Waypoint\<close>. Its annotations are not enforced, so every field holds a
  Python value. The fields \<open>latitude\<close>, \<open>longitude\<close> and \<open>altitude\<close> are written with the
  prefix \<open>wp_\<close>.
\<close>

record waypoint =
  wp_latitude :: pyval
  wp_longitude :: pyval
  wp_altitude :: pyval
  speed :: pyval
  hold_time :: pyval
  accept_radius :: pyval
  pass_radius :: pyval
  yaw_angle :: pyval
  waypoint_type :: pyval
  autocontinue :: pyval

definition to_dict :: "waypoint \<Rightarrow> dict" where
  "to_dict w =
    [(''latitude'', wp_latitude w),
     (''longitude'', wp_longitude w),
     (''altitude'', wp_altitude w),
     (''speed'', speed w),
     (''hold_time'', hold_time w),
     (''accept_radius'', accept_radius w),
     (''pass_radius'', pass_radius w),
     (''yaw_angle'', yaw_angle w),
     (''waypoint_type'', waypoint_type w),
     (''autocontinue'', autocontinue w)]"

definition waypoint_fields :: "string list" where
  "waypoint_fields = [''latitude'', ''longitude'', ''altitude'', ''speed'', ''hold_time'',
     ''accept_radius'', ''pass_radius'', ''yaw_angle'', ''waypoint_type'', ''autocontinue'']"

text \<open>
  \<open>cls(**data)\<close>: the generated constructor raises \<open>TypeError\<close> on a key that is not a
  field and on a missing field without default; the other fields take their defaults.
\<close>

definition from_dict :: "dict \<Rightarrow> exn + waypoint" where
  "from_dict data =
    (if \<not> list_all (\<lambda>k. k \<in> set waypoint_fields) (map fst data) then Inl TypeError
     else if \<not> list_all (\<lambda>k. k \<in> set (map fst data)) [''latitude'', ''longitude'', ''altitude'']
     then Inl TypeError
     else Inr \<lparr>wp_latitude = dict_get data ''latitude'' PNone,
               wp_longitude = dict_get data ''longitude'' PNone,
               wp_altitude = dict_get data ''altitude'' PNone,
               speed = dict_get data ''speed'' (PFloat 0),
               hold_time = dict_get data ''hold_time'' (PInt 0),
               accept_radius = dict_get data ''accept_radius'' (PFloat 5),
               pass_radius = dict_get data ''pass_radius'' (PFloat 2),
               yaw_angle = dict_get data ''yaw_angle'' (PFloat 0),
               waypoint_type = dict_get data ''waypoint_type'' (PStr ''WAYPOINT''),
               autocontinue = dict_get data ''autocontinue'' (PBool True)\<rparr>)"

record planner =
  mav :: handler
  waypoints :: "waypoint list"
  current_mission :: string

definition add_waypoint :: "waypoint \<Rightarrow> planner \<Rightarrow> int \<times> planner" where
  "add_waypoint w p =
    (let p' = p\<lparr>waypoints := waypoints p @ [w]\<rparr> in (int (length (waypoints p')) - 1, p'))"

definition insert_waypoint :: "int \<Rightarrow> waypoint \<Rightarrow> planner \<Rightarrow> bool \<times> planner" where
  "insert_waypoint index w p =
    (if 0 \<le> index \<and> index \<le> int (length (waypoints p))
     then (True, p\<lparr>waypoints := take (nat index) (waypoints p) @ w # drop (nat index) (waypoints p)\<rparr>)
     else (False, p))"

definition remove_waypoint :: "int \<Rightarrow> planner \<Rightarrow> bool \<times> planner" where
  "remove_waypoint index p =
    (if 0 \<le> index \<and> index < int (length (waypoints p))
     then (True, p\<lparr>waypoints := take (nat index) (waypoints p) @ drop (Suc (nat index)) (waypoints p)\<rparr>)
     else (False, p))"

subsection \<open>\<open>upload_mission_to_vehicle\<close>\<close>

text \<open>
  The names bound at module level in \<open>mission_planner.py\<close>: its imports (lines 4 to 9),
  \<open>logger\<close> and the two classes. The module reads \<open>mavutil.mavlink.MAV_CMD_...\<close> on
  lines 228 to 237 and \<open>mavutil\<close> is not among the names, nor a builtin: evaluating the
  name raises \<open>NameError\<close>.
\<close>

definition module_globals :: "string list" where
  "module_globals = [''json'', ''logging'', ''Path'', ''Dict'', ''List'', ''Optional'', ''Any'',
     ''Union'', ''dataclass'', ''asdict'', ''time'', ''logger'', ''Waypoint'', ''MissionPlanner'']"

definition mavutil_mavlink :: "int \<Rightarrow> exn + int" where
  "mavutil_mavlink c = (if ''mavutil'' \<in> set module_globals then Inr c else Inl (NameError ''mavutil''))"

text \<open>The body of the loop of lines 213 to 239, for one waypoint.\<close>

definition mav_wp_of :: "waypoint \<Rightarrow> exn + dict" where
  "mav_wp_of wp =
    (let mav_wp =
       [(''x'', wp_latitude wp),
        (''y'', wp_longitude wp),
        (''z'', wp_altitude wp),
        (''p1'', speed wp),
        (''p2'', accept_radius wp),
        (''p3'', pass_radius wp),
        (''p4'', yaw_angle wp),
        (''frame'', PInt 3),
        (''autocontinue'', PInt (if truthy (autocontinue wp) then 1 else 0))]
     in
     if waypoint_type wp = PStr ''TAKEOFF'' then
       (case mavutil_mavlink MAV_CMD_NAV_TAKEOFF of
          Inl e \<Rightarrow> Inl e
        | Inr c \<Rightarrow> Inr (AList.update ''command'' (PInt c) mav_wp))
     else if waypoint_type wp = PStr ''LAND'' then
       (case mavutil_mavlink MAV_CMD_NAV_LAND of
          Inl e \<Rightarrow> Inl e
        | Inr c \<Rightarrow> Inr (AList.update ''command'' (PInt c) mav_wp))
     else if waypoint_type wp = PStr ''RETURN_TO_LAUNCH'' then
       (case mavutil_mavlink MAV_CMD_NAV_RETURN_TO_LAUNCH of
          Inl e \<Rightarrow> Inl e
        | Inr c \<Rightarrow> Inr (AList.update ''command'' (PInt c) mav_wp))
     else if waypoint_type wp = PStr ''LOITER_TIME'' then
       (case mavutil_mavlink MAV_CMD_NAV_LOITER_TIME of
          Inl e \<Rightarrow> Inl e
        | Inr c \<Rightarrow> Inr (AList.update ''p1'' (hold_time wp)
                     (AList.update ''command'' (PInt c) mav_wp)))
     else
       (case mavutil_mavlink MAV_CMD_NAV_WAYPOINT of
          Inl e \<Rightarrow> Inl e
        | Inr c \<Rightarrow> Inr (AList.update ''command'' (PInt c) mav_wp)))"

fun mav_waypoints_of :: "waypoint list \<Rightarrow> exn + dict list" where
  "mav_waypoints_of [] = Inr []"
| "mav_waypoints_of (wp # wps) =
     (case mav_wp_of wp of
        Inl e \<Rightarrow> Inl e
      | Inr d \<Rightarrow> (case mav_waypoints_of wps of Inl e \<Rightarrow> Inl e | Inr ds \<Rightarrow> Inr (d # ds)))"

definition upload_mission_to_vehicle :: "planner \<Rightarrow> (bool, planner) res" where
  "upload_mission_to_vehicle p =
    (if waypoints p = [] then Returns False p
     else case mav_waypoints_of (waypoints p) of
       Inl e \<Rightarrow> Raises e p
     | Inr mav_waypoints \<Rightarrow>
         (case upload_mission mav_waypoints (mav p) of
            Hangs \<Rightarrow> Hangs
          | Raises e h \<Rightarrow> Raises e (p\<lparr>mav := h\<rparr>)
          | Returns ok h \<Rightarrow> Returns ok (p\<lparr>mav := h\<rparr>)))"

section \<open>What the link delivers: predicates on event lists\<close>

text \<open>The frames among a list of events, in order.\<close>

fun frames_of :: "event list \<Rightarrow> msg list" where
  "frames_of [] = []"
| "frames_of (Frame m # evs) = m # frames_of evs"
| "frames_of (Idle # evs) = frames_of evs"
| "frames_of (Fault # evs) = frames_of evs"

text \<open>
  An event that a blocking receive filtered on the kinds \<open>ts\<close> passes over: a pause, or
  a frame of another kind.
\<close>

fun passes_over :: "string list \<Rightarrow> event \<Rightarrow> bool" where
  "passes_over ts (Frame m) = (get_type m \<notin> set ts)"
| "passes_over ts Idle = True"
| "passes_over ts Fault = False"

text \<open>
  A read error meets a poll: it comes before the link runs out of frames to read.
\<close>

fun read_error :: "event list \<Rightarrow> bool" where
  "read_error [] = False"
| "read_error (Idle # evs) = False"
| "read_error (Fault # evs) = True"
| "read_error (Frame m # evs) = read_error evs"

text \<open>A poll reads a frame of kind \<open>HEARTBEAT\<close>: one comes before the link runs idle.\<close>

fun heartbeat_read :: "event list \<Rightarrow> bool" where
  "heartbeat_read [] = False"
| "heartbeat_read (Idle # evs) = False"
| "heartbeat_read (Fault # evs) = False"
| "heartbeat_read (Frame m # evs) = (get_type m = ''HEARTBEAT'' \<or> heartbeat_read evs)"

text \<open>
  The stop rule of the parameter fetch in the spec's words: a parameter-value frame whose
  reported index equals its reported total count minus one.
\<close>

fun ends_fetch :: "msg \<Rightarrow> bool" where
  "ends_fetch (PARAM_VALUE name v param_count param_index) =
     (int param_index = int param_count - 1)"
| "ends_fetch _ = False"

fun passes_fetch :: "event \<Rightarrow> bool" where
  "passes_fetch (Frame m) = (well_formed m \<and> \<not> ends_fetch m)"
| "passes_fetch Idle = True"
| "passes_fetch Fault = False"

text \<open>
  An event that the wait for the first item request passes over, for a station with
  system id \<open>ss\<close> and component id \<open>sc\<close>: a pause, a frame of another kind, or an item
  request addressed elsewhere.
\<close>

fun not_own_request :: "int \<Rightarrow> int \<Rightarrow> event \<Rightarrow> bool" where
  "not_own_request ss sc (Frame (MISSION_REQUEST ts tc sq)) = (\<not> (ts = ss \<and> tc = sc))"
| "not_own_request ss sc (Frame m) = well_formed m"
| "not_own_request ss sc Idle = True"
| "not_own_request ss sc Fault = False"

text \<open>
  The vehicle's answers during the item loop: each step is a further item request,
  possibly after pauses and frames that are neither requests nor acknowledgments.
\<close>

fun replies :: "(event list \<times> msg) list \<Rightarrow> event list" where
  "replies [] = []"
| "replies ((ns, r) # steps) = ns @ Frame r # replies steps"

fun next_request :: "event list \<times> msg \<Rightarrow> bool" where
  "next_request (ns, r) =
     (list_all (passes_over [''MISSION_REQUEST'', ''MISSION_ACK'']) ns
      \<and> get_type r = ''MISSION_REQUEST'')"

text \<open>The mission-item frames for a waypoint list, numbered by list position from \<open>i\<close>.\<close>

fun items_from :: "int \<Rightarrow> int \<Rightarrow> nat \<Rightarrow> dict list \<Rightarrow> out_frame list" where
  "items_from vs vc i [] = []"
| "items_from vs vc i (wp # wps) = mission_item vs vc i wp # items_from vs vc (Suc i) wps"

section \<open>Concrete states\<close>

text \<open>
  A handler as \<open>connect\<close> leaves it, with the default station ids (system 255, component
  190), vehicle ids 1 and 1, an empty parameter cache, a link that accepts every send and
  will deliver the events \<open>evs\<close>.
\<close>

definition example_handler :: "event list \<Rightarrow> handler" where
  "example_handler evs =
    \<lparr>source_system = 255, source_component = 190, connected_h = True,
     heartbeat_timeout = 3, last_heartbeat = 0, vehicle_system = 1, vehicle_component = 1,
     telemetry = \<lparr>latitude = 0, longitude = 0, altitude = 0, heading = 0, groundspeed = 0,
                  battery_voltage = 0, battery_remaining = 0, mode = ''UNKNOWN'', armed = False,
                  system_status = ''UNKNOWN'', timestamp = 0\<rparr>,
     parameters = [], inbox = evs, sent = [], params = [], tx_up = True, ticks = 0\<rparr>"

text \<open>\<open>Waypoint(latitude=0.0, longitude=0.0, altitude=10.0, waypoint_type=ty)\<close>\<close>

definition default_waypoint :: "pyval \<Rightarrow> waypoint" where
  "default_waypoint ty =
    \<lparr>wp_latitude = PFloat 0, wp_longitude = PFloat 0, wp_altitude = PFloat 10,
     speed = PFloat 0, hold_time = PInt 0, accept_radius = PFloat 5, pass_radius = PFloat 2,
     yaw_angle = PFloat 0, waypoint_type = ty, autocontinue = PBool True\<rparr>"

definition example_planner :: "waypoint list \<Rightarrow> event list \<Rightarrow> planner" where
  "example_planner wps evs =
    \<lparr>mav = example_handler evs, waypoints = wps, current_mission = ''mission_1''\<rparr>"

text \<open>
  The dictionary that lines 214 to 228 of \<open>mission_planner.py\<close> would build for
  \<open>default_waypoint (PStr ''TAKEOFF'')\<close> if \<open>mavutil\<close> were bound there.
\<close>

definition takeoff_dict :: dict where
  "takeoff_dict =
    [(''x'', PFloat 0), (''y'', PFloat 0), (''z'', PFloat 10), (''p1'', PFloat 0),
     (''p2'', PFloat 5), (''p3'', PFloat 2), (''p4'', PFloat 0), (''frame'', PInt 3),
     (''autocontinue'', PInt 1), (''command'', PInt MAV_CMD_NAV_TAKEOFF)]"

text \<open>The dictionary of \<open>default_waypoint (PStr ''WAYPOINT'')\<close>, likewise.\<close>

definition plain_dict :: dict where
  "plain_dict =
    [(''x'', PFloat 0), (''y'', PFloat 0), (''z'', PFloat 10), (''p1'', PFloat 0),
     (''p2'', PFloat 5), (''p3'', PFloat 2), (''p4'', PFloat 0), (''frame'', PInt 3),
     (''autocontinue'', PInt 1), (''command'', PInt MAV_CMD_NAV_WAYPOINT)]"

section \<open>The loops, as the source writes them\<close>

text \<open>
  The three \<open>while True\<close> loops are defined by recursion on the events left. Each
  satisfies the equation of the source loop: one call of \<open>recv_match\<close>, the test, and the
  loop again on the state that call leaves.
\<close>

lemma process_message_inbox:
  assumes "process_message mm now m h = Returns u h'"
  shows "inbox h' = inbox h"
  using assms
  by (cases m) (auto simp: process_message_def Let_def split: if_splits option.splits)

lemma drain_loop:
  "drain mm now (inbox h) h =
    (case recv_match None False h of
       Hangs \<Rightarrow> Hangs
     | Raises e h1 \<Rightarrow> Raises e h1
     | Returns None h1 \<Rightarrow> Returns () h1
     | Returns (Some m) h1 \<Rightarrow>
         then_do (process_message mm now m h1) (\<lambda>_ h2. drain mm now (inbox h2) h2))"
proof (cases "inbox h")
  case Nil
  then show ?thesis by (simp add: recv_match_def)
next
  case (Cons ev evs)
  show ?thesis
  proof (cases ev)
    case (Frame m)
    let ?h1 = "(post_message m h)\<lparr>inbox := evs\<rparr>"
    have "then_do (process_message mm now m ?h1) (\<lambda>_ h'. drain mm now evs h')
        = then_do (process_message mm now m ?h1) (\<lambda>_ h2. drain mm now (inbox h2) h2)"
    proof (cases "process_message mm now m ?h1")
      case (Returns u h2)
      with process_message_inbox [OF Returns] show ?thesis by simp
    qed simp_all
    with Cons Frame show ?thesis by (simp add: recv_match_def Let_def)
  next
    case Idle
    with Cons show ?thesis by (simp add: recv_match_def)
  next
    case Fault
    with Cons show ?thesis by (simp add: recv_match_def)
  qed
qed

lemma await_request_scan:
  "await_request evs h =
    (case recv_scan (Some [''MISSION_REQUEST'']) True evs h of
       Hangs \<Rightarrow> Hangs
     | Raises e h1 \<Rightarrow> Raises e h1
     | Returns None h1 \<Rightarrow> Raises (AttributeError ''target_system'') h1
     | Returns (Some m) h1 \<Rightarrow>
         (case m of
            MISSION_REQUEST target_system target_component sq \<Rightarrow>
              if target_system = source_system h1 \<and> target_component = source_component h1
              then Returns () h1
              else await_request (inbox h1) h1
          | _ \<Rightarrow> Raises (AttributeError ''target_system'') h1))"
proof (induction evs arbitrary: h)
  case Nil
  then show ?case by simp
next
  case (Cons ev evs)
  show ?case
  proof (cases ev)
    case (Frame m)
    show ?thesis
    proof (cases "get_type m = ''MISSION_REQUEST''")
      case True
      with Frame show ?thesis by (cases m) (simp_all add: Let_def)
    next
      case False
      with Frame Cons.IH [of "(post_message m h)\<lparr>inbox := evs\<rparr>"] show ?thesis
        by (simp add: Let_def)
    qed
  next
    case Idle
    with Cons.IH [of "h\<lparr>inbox := evs\<rparr>"] show ?thesis by simp
  next
    case Fault
    then show ?thesis by simp
  qed
qed

lemma await_request_loop:
  "await_request (inbox h) h =
    (case recv_match (Some [''MISSION_REQUEST'']) True h of
       Hangs \<Rightarrow> Hangs
     | Raises e h1 \<Rightarrow> Raises e h1
     | Returns None h1 \<Rightarrow> Raises (AttributeError ''target_system'') h1
     | Returns (Some m) h1 \<Rightarrow>
         (case m of
            MISSION_REQUEST target_system target_component sq \<Rightarrow>
              if target_system = source_system h1 \<and> target_component = source_component h1
              then Returns () h1
              else await_request (inbox h1) h1
          | _ \<Rightarrow> Raises (AttributeError ''target_system'') h1))"
  unfolding recv_match_def by (rule await_request_scan)

lemma await_last_param_scan:
  "await_last_param evs h =
    (case recv_scan (Some [''PARAM_VALUE'', ''PARAM_EXT_VALUE'']) True evs h of
       Hangs \<Rightarrow> Hangs
     | Raises e h1 \<Rightarrow> Raises e h1
     | Returns None h1 \<Rightarrow> Raises (AttributeError ''get_type'') h1
     | Returns (Some m) h1 \<Rightarrow>
         if get_type m = ''PARAM_VALUE'' then
           (case m of
              PARAM_VALUE name v param_count param_index \<Rightarrow>
                if param_count > 0 \<and> int param_index = int param_count - 1
                then Returns () h1
                else await_last_param (inbox h1) h1
            | _ \<Rightarrow> Raises (AttributeError ''param_count'') h1)
         else await_last_param (inbox h1) h1)"
proof (induction evs arbitrary: h)
  case Nil
  then show ?case by simp
next
  case (Cons ev evs)
  show ?case
  proof (cases ev)
    case (Frame m)
    show ?thesis
    proof (cases "get_type m \<in> set [''PARAM_VALUE'', ''PARAM_EXT_VALUE'']")
      case True
      with Frame show ?thesis by (cases m) (simp_all add: Let_def)
    next
      case False
      with Frame Cons.IH [of "(post_message m h)\<lparr>inbox := evs\<rparr>"] show ?thesis
        by (simp add: Let_def)
    qed
  next
    case Idle
    with Cons.IH [of "h\<lparr>inbox := evs\<rparr>"] show ?thesis by simp
  next
    case Fault
    then show ?thesis by simp
  qed
qed

lemma await_last_param_loop:
  "await_last_param (inbox h) h =
    (case recv_match (Some [''PARAM_VALUE'', ''PARAM_EXT_VALUE'']) True h of
       Hangs \<Rightarrow> Hangs
     | Raises e h1 \<Rightarrow> Raises e h1
     | Returns None h1 \<Rightarrow> Raises (AttributeError ''get_type'') h1
     | Returns (Some m) h1 \<Rightarrow>
         if get_type m = ''PARAM_VALUE'' then
           (case m of
              PARAM_VALUE name v param_count param_index \<Rightarrow>
                if param_count > 0 \<and> int param_index = int param_count - 1
                then Returns () h1
                else await_last_param (inbox h1) h1
            | _ \<Rightarrow> Raises (AttributeError ''param_count'') h1)
         else await_last_param (inbox h1) h1)"
  unfolding recv_match_def by (rule await_last_param_scan)

section \<open>The telemetry decoder\<close>

text \<open>
  C4. A \<open>GLOBAL_POSITION_INT\<close> frame is decoded without failure; afterwards latitude and
  longitude are the raw integers divided by 1e7, altitude is the raw millimetre value
  divided by 1000 and heading the raw centidegree value divided by 100. For raw latitude
  123456789 and raw altitude 15000 (any longitude and heading) the latitude is within 1e-7
  of 12.3456789 and the altitude is 15. Floats are read as exact reals.
\<close>

theorem process_message_global_position_int:
  "(\<exists>h'. process_message mode_mapping now (GLOBAL_POSITION_INT lat lon alt hdg) h = Returns () h'
      \<and> latitude (telemetry h') = real_of_int lat / 10000000
      \<and> longitude (telemetry h') = real_of_int lon / 10000000
      \<and> altitude (telemetry h') = real_of_int alt / 1000
      \<and> heading (telemetry h') = real_of_int hdg / 100)
   \<and> (\<exists>h'. process_message mode_mapping now (GLOBAL_POSITION_INT 123456789 lon 15000 hdg) h
               = Returns () h'
      \<and> \<bar>latitude (telemetry h') - 12.3456789\<bar> \<le> 1 / 10000000
      \<and> altitude (telemetry h') = 15)"
  by (simp add: process_message_def)

text \<open>
  C5. A frame whose kind is none of \<open>HEARTBEAT\<close>, \<open>GLOBAL_POSITION_INT\<close>, \<open>VFR_HUD\<close>,
  \<open>SYS_STATUS\<close> is processed without failure and leaves the handler, and with it every
  field of the telemetry snapshot, as it was.
\<close>

theorem process_message_other_kind:
  assumes "get_type m \<notin> set [''HEARTBEAT'', ''GLOBAL_POSITION_INT'', ''VFR_HUD'', ''SYS_STATUS'']"
  shows "process_message mode_mapping now m h = Returns () h"
  using assms by (simp add: process_message_def)

theorem process_message_other_kind_witness:
  "get_type (OTHER ''ATTITUDE'')
     \<notin> set [''HEARTBEAT'', ''GLOBAL_POSITION_INT'', ''VFR_HUD'', ''SYS_STATUS'']
   \<and> process_message (Some [(''AUTO'', 10)]) (\<lambda>k. 100) (OTHER ''ATTITUDE'') (example_handler [])
       = Returns () (example_handler [])
   \<and> process_message pymavlink_mode_mapping (\<lambda>k. 100) (MISSION_ACK 0) (example_handler [])
       = Returns () (example_handler [])"
  using process_message_other_kind [of "OTHER ''ATTITUDE''" "Some [(''AUTO'', 10)]" "\<lambda>k. 100"
      "example_handler []"]
    process_message_other_kind [of "MISSION_ACK 0" pymavlink_mode_mapping "\<lambda>k. 100"
      "example_handler []"]
  by simp

section \<open>The link monitor\<close>

lemma process_message_well_formed:
  assumes "well_formed m"
  shows "\<exists>h'. process_message (Some table) now m h = Returns () h'
     \<and> connected_h h' = connected_h h \<and> inbox h' = inbox h"
  using assms by (cases m) (auto simp: process_message_def named_kinds_def Let_def)

lemma drain_outcome:
  assumes "list_all well_formed_event evs"
  shows "(read_error evs \<longrightarrow> (\<exists>e h1. drain (Some table) now evs h = Raises e h1))
       \<and> (\<not> read_error evs \<longrightarrow>
            (\<exists>h1. drain (Some table) now evs h = Returns () h1
               \<and> connected_h h1 = connected_h h))"
  using assms
proof (induction evs arbitrary: h)
  case Nil
  then show ?case by simp
next
  case (Cons ev evs)
  show ?case
  proof (cases ev)
    case (Frame m)
    with Cons.prems have wf: "well_formed m" and rest: "list_all well_formed_event evs"
      by simp_all
    from process_message_well_formed [OF wf, of table now "(post_message m h)\<lparr>inbox := evs\<rparr>"]
    obtain h' where
      step: "process_message (Some table) now m ((post_message m h)\<lparr>inbox := evs\<rparr>) = Returns () h'"
      and conn: "connected_h h' = connected_h h"
      by (auto simp: post_message_def)
    from Cons.IH [OF rest, of h'] step conn Frame show ?thesis by simp
  next
    case Idle
    then show ?thesis by simp
  next
    case Fault
    then show ?thesis by simp
  qed
qed

text \<open>
  With a mode-name table supplied, a poll behaves as the spec says: a read error gives
  \<open>False\<close> and \<open>connected\<close> false; otherwise the frames are drained and the comparison of
  the clock with the last heartbeat decides.
\<close>

lemma update_telemetry_with_table:
  assumes "connected_h h" and "list_all well_formed_event (inbox h)"
  shows "(read_error (inbox h) \<longrightarrow>
            (\<exists>h'. update_telemetry (Some table) now h = Returns False h' \<and> \<not> connected_h h'))
       \<and> (\<not> read_error (inbox h) \<longrightarrow>
            (\<exists>h1. drain (Some table) now (inbox h) h = Returns () h1
               \<and> (if now (ticks h1) - last_heartbeat h1 > heartbeat_timeout h1
                  then \<exists>h'. update_telemetry (Some table) now h = Returns False h'
                         \<and> \<not> connected_h h'
                  else \<exists>h'. update_telemetry (Some table) now h = Returns True h'
                         \<and> connected_h h')))"
proof (cases "read_error (inbox h)")
  case True
  with drain_outcome [OF assms(2), of table now h]
  obtain e h1 where "drain (Some table) now (inbox h) h = Raises e h1" by auto
  with True assms(1) show ?thesis by (simp add: update_telemetry_def)
next
  case False
  with drain_outcome [OF assms(2), of table now h]
  obtain h1 where "drain (Some table) now (inbox h) h = Returns () h1"
    and "connected_h h1 = connected_h h"
    by auto
  with False assms(1) show ?thesis by (simp add: update_telemetry_def Let_def)
qed

lemma process_message_returns_or_raises:
  "process_message mode_mapping now m h \<noteq> Hangs"
  by (cases m; cases mode_mapping) (simp_all add: process_message_def Let_def)

lemma process_message_heartbeat_raises:
  assumes "get_type m = ''HEARTBEAT''"
  shows "\<exists>e h'. process_message pymavlink_mode_mapping now m h = Raises e h'"
  using assms
  by (cases m) (simp_all add: process_message_def pymavlink_mode_mapping_def Let_def)

lemma drain_heartbeat_raises:
  assumes "heartbeat_read evs"
  shows "\<exists>e h1. drain pymavlink_mode_mapping now evs h = Raises e h1"
  using assms
proof (induction evs arbitrary: h)
  case Nil
  then show ?case by simp
next
  case (Cons ev evs)
  show ?case
  proof (cases ev)
    case (Frame m)
    let ?h0 = "(post_message m h)\<lparr>inbox := evs\<rparr>"
    show ?thesis
    proof (cases "process_message pymavlink_mode_mapping now m ?h0")
      case Hangs
      with process_message_returns_or_raises [of pymavlink_mode_mapping now m ?h0]
      show ?thesis by simp
    next
      case (Raises e h1)
      with Frame show ?thesis by simp
    next
      case (Returns u h1)
      with process_message_heartbeat_raises [of m now ?h0]
      have "get_type m \<noteq> ''HEARTBEAT''" by auto
      with Cons.prems Frame have "heartbeat_read evs" by simp
      from Cons.IH [OF this, of h1] Frame Returns show ?thesis by simp
    qed
  next
    case Idle
    with Cons.prems show ?thesis by simp
  next
    case Fault
    with Cons.prems show ?thesis by simp
  qed
qed

text \<open>
  C6. The claim's last case fails in the code. With the library as it is, every poll of
  a connected handler that reads a \<open>HEARTBEAT\<close> frame returns \<open>False\<close> and leaves
  \<open>connected\<close> false, whatever the clock reads: processing the frame raises
  \<open>AttributeError\<close> on \<open>mavutil.mode_mapping\<close> (line 126), which the \<open>except\<close> of
  \<open>update_telemetry\<close> (lines 111 to 114) turns into a disconnect. The claim says that
  without a read error and without a timeout the poll returns success and \<open>connected\<close>
  stays true.
\<close>

theorem update_telemetry_heartbeat_disconnects:
  assumes "connected_h h" and "heartbeat_read (inbox h)"
  shows "\<exists>h'. update_telemetry pymavlink_mode_mapping now h = Returns False h'
     \<and> \<not> connected_h h'"
proof -
  from drain_heartbeat_raises [OF assms(2), of now h]
  obtain e h1 where "drain pymavlink_mode_mapping now (inbox h) h = Raises e h1" by auto
  with assms(1) show ?thesis by (simp add: update_telemetry_def)
qed

text \<open>
  The example handler reads one heartbeat at time 100 and then nothing: no read error,
  and at the time of the call's end (102) the heartbeat just recorded is 2 seconds old,
  inside the timeout of 3.
\<close>

theorem update_telemetry_heartbeat_disconnects_witness:
  "connected_h (example_handler [Frame (HEARTBEAT 209 4), Idle])
   \<and> heartbeat_read [Frame (HEARTBEAT 209 4), Idle]
   \<and> \<not> read_error [Frame (HEARTBEAT 209 4), Idle]
   \<and> (\<exists>h'. update_telemetry pymavlink_mode_mapping (\<lambda>k. 100 + real k)
              (example_handler [Frame (HEARTBEAT 209 4), Idle]) = Returns False h'
          \<and> \<not> connected_h h'
          \<and> last_heartbeat h' = 100
          \<and> \<not> (100 + real (ticks h') - last_heartbeat h' > heartbeat_timeout h'))"
  using update_telemetry_heartbeat_disconnects [of "example_handler [Frame (HEARTBEAT 209 4), Idle]"
      "\<lambda>k. 100 + real k"]
  by (simp add: example_handler_def update_telemetry_def process_message_def post_message_def
      pymavlink_mode_mapping_def Let_def)

section \<open>Commands\<close>

text \<open>
  C7. For a mode name that is not a key of the mode-name table, \<open>set_mode\<close> returns
  \<open>False\<close> and leaves the handler unchanged: the list of frames handed to the link is the
  same as before, so no frame is sent. The same holds for every name when the library
  has no table to read.
\<close>

theorem set_mode_unknown_name:
  assumes "name \<notin> fst ` set table"
  shows "set_mode (Some table) name h = Returns False h
     \<and> set_mode None name h = Returns False h"
  using assms by (simp add: set_mode_def)

theorem set_mode_unknown_name_witness:
  "''UNKNOWN_MODE'' \<notin> fst ` set [(''MANUAL'', 0), (''AUTO'', 10), (''GUIDED'', 15)]
   \<and> set_mode (Some [(''MANUAL'', 0), (''AUTO'', 10), (''GUIDED'', 15)]) ''UNKNOWN_MODE''
         (example_handler [])
       = Returns False (example_handler [])
   \<and> set_mode None ''UNKNOWN_MODE'' (example_handler []) = Returns False (example_handler [])
   \<and> sent (example_handler []) = []"
  using set_mode_unknown_name [of "''UNKNOWN_MODE''" "[(''MANUAL'', 0), (''AUTO'', 10), (''GUIDED'', 15)]"
      "example_handler []"]
  by (simp add: example_handler_def)

section \<open>Parameter fetch\<close>

lemma await_last_param_run:
  assumes "list_all passes_fetch pre" and "ends_fetch m"
  shows "await_last_param (pre @ Frame m # rest) h =
     Returns () (h\<lparr>params := fold param_cache (frames_of pre @ [m]) (params h), inbox := rest\<rparr>)"
  using assms
proof (induction pre arbitrary: h)
  case Nil
  then show ?case by (cases m) (auto simp: post_message_def)
next
  case (Cons ev pre)
  show ?case
  proof (cases ev)
    case (Frame x)
    with Cons.prems have "well_formed x" "\<not> ends_fetch x" "list_all passes_fetch pre"
      by simp_all
    with Cons.IH [of "(post_message x h)\<lparr>inbox := pre @ Frame m # rest\<rparr>"] Cons.prems(2) Frame
    show ?thesis by (cases x) (auto simp: post_message_def named_kinds_def)
  next
    case Idle
    with Cons show ?thesis by simp
  next
    case Fault
    with Cons.prems show ?thesis by simp
  qed
qed

text \<open>
  C8, as the handler has it. On a connected handler whose sends succeed, let the link
  deliver events \<open>pre\<close>, none of them a parameter-value frame whose index is its count
  minus one, and then such a frame \<open>m\<close>. Then \<open>get_parameters\<close> sends one
  parameter-list request, reads up to and including \<open>m\<close> and no further, and returns the
  library's table: what it held before the call, updated by name with every frame of
  \<open>pre\<close> and then \<open>m\<close>. For the vehicle reporting count 3 whose frames arrive with indices
  1, 0, 2, on a table that was empty before, the table returned has exactly the three
  names.
\<close>

theorem get_parameters_collects:
  assumes "connected_h h" and "tx_up h"
    and "inbox h = pre @ Frame m # rest"
    and "list_all passes_fetch pre" and "ends_fetch m"
  shows "\<exists>h'. get_parameters h = Returns (fold param_cache (frames_of pre @ [m]) (params h)) h'
     \<and> inbox h' = rest \<and> sent h' = sent h @ [PARAM_REQUEST_LIST]"
  using assms
    await_last_param_run [OF assms(4,5), of rest "h\<lparr>sent := sent h @ [PARAM_REQUEST_LIST]\<rparr>"]
  by (simp add: get_parameters_def param_fetch_all_def send_def Let_def)

theorem get_parameters_collects_witness:
  "connected_h (example_handler [Frame (PARAM_VALUE ''B'' 2 3 1), Frame (PARAM_VALUE ''A'' 1 3 0),
       Frame (PARAM_VALUE ''C'' 3 3 2)])
   \<and> tx_up (example_handler [Frame (PARAM_VALUE ''B'' 2 3 1), Frame (PARAM_VALUE ''A'' 1 3 0),
       Frame (PARAM_VALUE ''C'' 3 3 2)])
   \<and> list_all passes_fetch [Frame (PARAM_VALUE ''B'' 2 3 1), Frame (PARAM_VALUE ''A'' 1 3 0)]
   \<and> ends_fetch (PARAM_VALUE ''C'' 3 3 2)
   \<and> (\<exists>h'. get_parameters (example_handler [Frame (PARAM_VALUE ''B'' 2 3 1),
               Frame (PARAM_VALUE ''A'' 1 3 0), Frame (PARAM_VALUE ''C'' 3 3 2)])
            = Returns [(''B'', 2), (''A'', 1), (''C'', 3)] h'
          \<and> inbox h' = [] \<and> sent h' = [PARAM_REQUEST_LIST])
   \<and> length [(''B'', 2::real), (''A'', 1), (''C'', 3)] = 3
   \<and> distinct (map fst [(''B'', 2::real), (''A'', 1), (''C'', 3)])"
  using get_parameters_collects [of
      "example_handler [Frame (PARAM_VALUE ''B'' 2 3 1), Frame (PARAM_VALUE ''A'' 1 3 0),
         Frame (PARAM_VALUE ''C'' 3 3 2)]"
      "[Frame (PARAM_VALUE ''B'' 2 3 1), Frame (PARAM_VALUE ''A'' 1 3 0)]"
      "PARAM_VALUE ''C'' 3 3 2" "[]"]
  by (auto simp add: example_handler_def)

text \<open>
  The claim as stated fails where the arrival order is another one or the table was not
  empty. With count 3 and indices arriving 2, 1, 0 the call returns after the first frame
  with one entry; with indices 0, 2, 1 it returns two entries; with indices 1, 0, 2 on a
  table that already held a name it returns four.
\<close>

theorem get_parameters_counterexample:
  "(case get_parameters (example_handler [Frame (PARAM_VALUE ''C'' 3 3 2),
            Frame (PARAM_VALUE ''B'' 2 3 1), Frame (PARAM_VALUE ''A'' 1 3 0)]) of
      Returns table h' \<Rightarrow>
        table = [(''C'', 3)]
        \<and> inbox h' = [Frame (PARAM_VALUE ''B'' 2 3 1), Frame (PARAM_VALUE ''A'' 1 3 0)]
    | _ \<Rightarrow> False)
   \<and> (case get_parameters (example_handler [Frame (PARAM_VALUE ''A'' 1 3 0),
            Frame (PARAM_VALUE ''C'' 3 3 2), Frame (PARAM_VALUE ''B'' 2 3 1)]) of
      Returns table h' \<Rightarrow>
        table = [(''A'', 1), (''C'', 3)] \<and> inbox h' = [Frame (PARAM_VALUE ''B'' 2 3 1)]
    | _ \<Rightarrow> False)
   \<and> (case get_parameters ((example_handler [Frame (PARAM_VALUE ''B'' 2 3 1),
            Frame (PARAM_VALUE ''A'' 1 3 0), Frame (PARAM_VALUE ''C'' 3 3 2)])
            \<lparr>params := [(''OLD'', 9)]\<rparr>) of
      Returns table h' \<Rightarrow> map fst table = [''OLD'', ''B'', ''A'', ''C'']
    | _ \<Rightarrow> False)"
  by (simp add: get_parameters_def param_fetch_all_def example_handler_def send_def
      post_message_def)

section \<open>The waypoint dictionary\<close>

text \<open>
  C10. \<open>Waypoint.from_dict(w.to_dict())\<close> raises nothing and equals \<open>w\<close>, for every
  waypoint \<open>w\<close>: all ten fields come back.
\<close>

theorem from_dict_to_dict:
  "from_dict (to_dict w) = Inr w"
  by (simp add: from_dict_def to_dict_def waypoint_fields_def dict_get_def)

section \<open>Mission upload from the planner\<close>

text \<open>
  C2. With an empty waypoint list \<open>upload_mission_to_vehicle\<close> returns \<open>False\<close> at once
  and leaves the planner and its handler unchanged: the handler's \<open>upload_mission\<close> is
  not called, so neither a mission-clear nor a mission-count frame is sent.
\<close>

theorem upload_mission_to_vehicle_empty:
  assumes "waypoints p = []"
  shows "upload_mission_to_vehicle p = Returns False p"
  using assms by (simp add: upload_mission_to_vehicle_def)

theorem upload_mission_to_vehicle_empty_witness:
  "waypoints (example_planner [] [Frame (MISSION_ACK 0)]) = []
   \<and> upload_mission_to_vehicle (example_planner [] [Frame (MISSION_ACK 0)])
       = Returns False (example_planner [] [Frame (MISSION_ACK 0)])
   \<and> sent (mav (example_planner [] [Frame (MISSION_ACK 0)])) = []"
  using upload_mission_to_vehicle_empty [of "example_planner [] [Frame (MISSION_ACK 0)]"]
  by (simp add: example_planner_def example_handler_def)

text \<open>
  The guard is the planner's. The handler's \<open>upload_mission\<close> has none: called with an
  empty list it clears the mission, announces a count of 0 and waits for a request.
\<close>

lemma upload_mission_empty_list:
  "upload_mission [] (example_handler [Frame (MISSION_ACK 0), Frame (MISSION_REQUEST 255 190 0)])
     = Returns True ((example_handler [])\<lparr>sent := [MISSION_CLEAR_ALL 1 1, MISSION_COUNT 1 1 0 0]\<rparr>)"
  by (simp add: upload_mission_def example_handler_def send_def recv_match_def post_message_def)

lemma mavutil_mavlink_unbound: "mavutil_mavlink c = Inl (NameError ''mavutil'')"
  by (simp add: mavutil_mavlink_def module_globals_def)

lemma mav_wp_of_raises: "mav_wp_of wp = Inl (NameError ''mavutil'')"
  by (simp add: mav_wp_of_def Let_def mavutil_mavlink_unbound)

text \<open>
  C3. The policy that no operation raises to the caller fails in
  \<open>upload_mission_to_vehicle\<close>: with any non-empty waypoint list the conversion loop
  evaluates the unbound name \<open>mavutil\<close> outside any \<open>try\<close>, and the call raises
  \<open>NameError\<close> before the handler is reached.
\<close>

theorem upload_mission_to_vehicle_raises:
  assumes "waypoints p \<noteq> []"
  shows "upload_mission_to_vehicle p = Raises (NameError ''mavutil'') p"
  using assms
  by (cases "waypoints p") (simp_all add: upload_mission_to_vehicle_def mav_wp_of_raises)

theorem upload_mission_to_vehicle_raises_witness:
  "waypoints (example_planner [default_waypoint (PStr ''WAYPOINT'')] []) \<noteq> []
   \<and> upload_mission_to_vehicle (example_planner [default_waypoint (PStr ''WAYPOINT'')] [])
       = Raises (NameError ''mavutil'') (example_planner [default_waypoint (PStr ''WAYPOINT'')] [])"
  using upload_mission_to_vehicle_raises [of "example_planner [default_waypoint (PStr ''WAYPOINT'')] []"]
  by (simp add: example_planner_def)

section \<open>Mission upload in the handler\<close>

text \<open>
  C1. The command code of a mission item does not follow the waypoint type. The handler
  is given the dictionary of a \<open>TAKEOFF\<close> waypoint, whose key \<open>command\<close> holds
  \<open>MAV_CMD_NAV_TAKEOFF\<close>, and a vehicle that acknowledges the clear, requests item 0 and
  acknowledges the upload: the call succeeds and the one mission-item frame sent carries
  \<open>MAV_CMD_NAV_WAYPOINT\<close>, which is a different code. Every mission item the handler
  builds carries that code, whatever the dictionary holds.
\<close>

theorem upload_mission_takeoff_command:
  "(case upload_mission [takeoff_dict]
          (example_handler [Frame (MISSION_ACK 0), Frame (MISSION_REQUEST 255 190 0),
                            Frame (MISSION_ACK 0)]) of
      Returns ok h' \<Rightarrow>
        ok \<and> map item_command (sent h') = [None, None, Some MAV_CMD_NAV_WAYPOINT]
    | _ \<Rightarrow> False)
   \<and> dict_get takeoff_dict ''command'' PNone = PInt MAV_CMD_NAV_TAKEOFF
   \<and> MAV_CMD_NAV_WAYPOINT \<noteq> MAV_CMD_NAV_TAKEOFF
   \<and> item_command (mission_item vs vc i wp) = Some MAV_CMD_NAV_WAYPOINT"
  by (simp add: upload_mission_def example_handler_def takeoff_dict_def send_def recv_match_def
      post_message_def dict_get_def mission_item_def MAV_CMD_NAV_WAYPOINT_def
      MAV_CMD_NAV_TAKEOFF_def)

lemma recv_scan_skip:
  assumes "list_all (passes_over ts) ns" and "get_type m \<in> set ts"
  shows "recv_scan (Some ts) True (ns @ Frame m # rest) h =
     Returns (Some m) (h\<lparr>params := fold param_cache (frames_of ns @ [m]) (params h), inbox := rest\<rparr>)"
  using assms
proof (induction ns arbitrary: h)
  case Nil
  then show ?case by (simp add: post_message_def)
next
  case (Cons ev ns)
  then show ?case by (cases ev) (simp_all add: post_message_def)
qed

lemma await_request_run:
  assumes "list_all (not_own_request (source_system h) (source_component h)) mis"
  shows "await_request
       (mis @ Frame (MISSION_REQUEST (source_system h) (source_component h) sq) # rest) h =
     Returns () (h\<lparr>params := fold param_cache (frames_of mis) (params h), inbox := rest\<rparr>)"
  using assms
proof (induction mis arbitrary: h)
  case Nil
  then show ?case by (simp add: post_message_def)
next
  case (Cons ev mis)
  show ?case
  proof (cases ev)
    case (Frame x)
    with Cons.prems have "list_all (not_own_request (source_system h) (source_component h)) mis"
      and x: "not_own_request (source_system h) (source_component h) (Frame x)"
      by simp_all
    with Cons.IH [of "(post_message x h)\<lparr>inbox :=
        mis @ Frame (MISSION_REQUEST (source_system h) (source_component h) sq) # rest\<rparr>"] Frame
    show ?thesis by (cases x) (auto simp: post_message_def named_kinds_def)
  next
    case Idle
    with Cons.prems
      Cons.IH [of "h\<lparr>inbox :=
        mis @ Frame (MISSION_REQUEST (source_system h) (source_component h) sq) # rest\<rparr>"]
    show ?thesis by simp
  next
    case Fault
    with Cons.prems show ?thesis by simp
  qed
qed

lemma send_items_run:
  assumes "tx_up h" and "length wps = Suc (length steps)"
    and "list_all next_request steps"
    and "list_all (passes_over [''MISSION_REQUEST'', ''MISSION_ACK'']) fin"
    and "inbox h = replies steps @ fin @ Frame (MISSION_ACK a) # rest"
  shows "\<exists>h'. send_items i wps h = Returns () h'
     \<and> sent h' = sent h @ items_from (vehicle_system h) (vehicle_component h) i wps
     \<and> inbox h' = rest"
  using assms
proof (induction steps arbitrary: h i wps)
  case Nil
  then obtain wp where wps: "wps = [wp]" by (cases wps) auto
  let ?h1 = "h\<lparr>sent := sent h @ [mission_item (vehicle_system h) (vehicle_component h) i wp]\<rparr>"
  from Nil.prems(4)
  have "recv_scan (Some [''MISSION_REQUEST'', ''MISSION_ACK'']) True
          (fin @ Frame (MISSION_ACK a) # rest) ?h1
        = Returns (Some (MISSION_ACK a))
            (?h1\<lparr>params := fold param_cache (frames_of fin @ [MISSION_ACK a]) (params h),
                  inbox := rest\<rparr>)"
    using recv_scan_skip [of "[''MISSION_REQUEST'', ''MISSION_ACK'']" fin "MISSION_ACK a" rest ?h1]
    by simp
  with Nil.prems wps show ?case by (simp add: send_def recv_match_def)
next
  case (Cons step steps)
  obtain ns r where step: "step = (ns, r)" by (cases step)
  from Cons.prems(2) obtain wp wps' where wps: "wps = wp # wps'"
    and len: "length wps' = Suc (length steps)"
    by (cases wps) auto
  from Cons.prems(3) step
  have ns: "list_all (passes_over [''MISSION_REQUEST'', ''MISSION_ACK'']) ns"
    and r: "get_type r = ''MISSION_REQUEST''" and steps: "list_all next_request steps"
    by simp_all
  let ?h1 = "h\<lparr>sent := sent h @ [mission_item (vehicle_system h) (vehicle_component h) i wp]\<rparr>"
  let ?h2 = "?h1\<lparr>params := fold param_cache (frames_of ns @ [r]) (params h),
                 inbox := replies steps @ fin @ Frame (MISSION_ACK a) # rest\<rparr>"
  from r have "get_type r \<in> set [''MISSION_REQUEST'', ''MISSION_ACK'']" by simp
  from recv_scan_skip [OF ns this, of "replies steps @ fin @ Frame (MISSION_ACK a) # rest" ?h1]
  have recv: "recv_scan (Some [''MISSION_REQUEST'', ''MISSION_ACK'']) True
       (ns @ Frame r # replies steps @ fin @ Frame (MISSION_ACK a) # rest) ?h1
       = Returns (Some r) ?h2"
    by simp
  from Cons.IH [of ?h2 wps' "i + 1"] Cons.prems(1,4) len steps
  obtain h' where run: "send_items (i + 1) wps' ?h2 = Returns () h'"
    and s: "sent h' = sent ?h2 @ items_from (vehicle_system ?h2) (vehicle_component ?h2) (i + 1) wps'"
    and ib: "inbox h' = rest"
    by auto
  from Cons.prems(1,5) step wps r recv run s ib show ?case
    by (simp add: send_def recv_match_def)
qed

lemma item_seq_items_from:
  "map item_seq (items_from vs vc i wps) = map (\<lambda>k. Some (int k)) [i..<i + length wps]"
proof (induction wps arbitrary: i)
  case Nil
  then show ?case by simp
next
  case (Cons wp wps)
  have "[i..<i + length (wp # wps)] = i # [Suc i..<Suc i + length wps]"
    using upt_conv_Cons [of i "i + Suc (length wps)"] by simp
  with Cons.IH [of "Suc i"] show ?case by (simp add: mission_item_def)
qed

text \<open>
  C9, as the handler has it. \<open>upload_mission\<close> on a connected handler whose sends
  succeed, with \<open>N \<ge> 1\<close> waypoints, and a vehicle that acknowledges the clear, sends an
  item request addressed to the station (requests addressed elsewhere before it are
  passed over), then \<open>N - 1\<close> further item requests and an acknowledgment, with pauses and
  frames of other kinds anywhere in between. The call returns \<open>True\<close>; it has sent the
  clear frame, the count frame with \<open>N\<close>, and exactly the \<open>N\<close> mission items in list order,
  with sequence numbers \<open>0 .. N - 1\<close>; it has read up to and including the final
  acknowledgment. The \<open>N - 1\<close> further requests may carry any target and any index: the
  loop reads neither.
\<close>

theorem upload_mission_cooperative:
  assumes "connected_h h" and "tx_up h"
    and "length wps = Suc (length steps)"
    and "inbox h = pre @ Frame (MISSION_ACK a0) # mis
           @ Frame (MISSION_REQUEST (source_system h) (source_component h) sq) # replies steps
           @ fin @ Frame (MISSION_ACK a1) # rest"
    and "list_all (passes_over [''MISSION_ACK'']) pre"
    and "list_all (not_own_request (source_system h) (source_component h)) mis"
    and "list_all next_request steps"
    and "list_all (passes_over [''MISSION_REQUEST'', ''MISSION_ACK'']) fin"
  shows "\<exists>h'. upload_mission wps h = Returns True h'
     \<and> sent h' = sent h @ MISSION_CLEAR_ALL (vehicle_system h) (vehicle_component h)
          # MISSION_COUNT (vehicle_system h) (vehicle_component h) (int (length wps)) 0
          # items_from (vehicle_system h) (vehicle_component h) 0 wps
     \<and> map item_seq (items_from (vehicle_system h) (vehicle_component h) 0 wps)
          = map (\<lambda>i. Some (int i)) [0..<length wps]
     \<and> inbox h' = rest"
proof -
  let ?clear = "MISSION_CLEAR_ALL (vehicle_system h) (vehicle_component h)"
  let ?count = "MISSION_COUNT (vehicle_system h) (vehicle_component h) (int (length wps)) 0"
  let ?tail2 = "replies steps @ fin @ Frame (MISSION_ACK a1) # rest"
  let ?tail1 = "mis @ Frame (MISSION_REQUEST (source_system h) (source_component h) sq) # ?tail2"
  let ?h1 = "h\<lparr>sent := sent h @ [?clear]\<rparr>"
  let ?h2 = "?h1\<lparr>params := fold param_cache (frames_of pre @ [MISSION_ACK a0]) (params h),
                 inbox := ?tail1\<rparr>"
  let ?h3 = "?h2\<lparr>sent := sent h @ [?clear, ?count]\<rparr>"
  let ?h4 = "?h3\<lparr>params := fold param_cache (frames_of mis) (params ?h3), inbox := ?tail2\<rparr>"
  have ack: "recv_match (Some [''MISSION_ACK'']) True ?h1 = Returns (Some (MISSION_ACK a0)) ?h2"
    using recv_scan_skip [OF assms(5), of "MISSION_ACK a0" ?tail1 ?h1] assms(4)
    by (simp add: recv_match_def)
  have req: "await_request (inbox ?h3) ?h3 = Returns () ?h4"
    using await_request_run [of ?h3 mis sq ?tail2] assms(6) by simp
  from send_items_run [of ?h4 wps steps fin a1 rest 0] assms(2,3,7,8)
  obtain h' where items: "send_items 0 wps ?h4 = Returns () h'"
    and s: "sent h' = sent ?h4 @ items_from (vehicle_system ?h4) (vehicle_component ?h4) 0 wps"
    and ib: "inbox h' = rest"
    by auto
  have "upload_mission wps h = Returns True h'"
    using assms(1,2) ack req items by (simp add: upload_mission_def send_def)
  with s ib item_seq_items_from [of "vehicle_system h" "vehicle_component h" 0 wps]
  show ?thesis by simp
qed

text \<open>
  Two waypoints; a heartbeat before the clear is acknowledged, a request addressed to
  system 1 before the station's own, a telemetry frame and pauses in between, a heartbeat
  left unread.
\<close>

theorem upload_mission_cooperative_witness:
  "connected_h (example_handler
      [Frame (HEARTBEAT 81 4), Frame (MISSION_ACK 0), Idle, Frame (MISSION_REQUEST 1 1 0),
       Frame (MISSION_REQUEST 255 190 0), Frame (VFR_HUD 2), Frame (MISSION_REQUEST 255 190 1),
       Idle, Frame (MISSION_ACK 0), Frame (HEARTBEAT 81 4)])
   \<and> list_all (not_own_request 255 190) [Idle, Frame (MISSION_REQUEST 1 1 0)]
   \<and> list_all next_request [([Frame (VFR_HUD 2)], MISSION_REQUEST 255 190 1)]
   \<and> (\<exists>h'. upload_mission [takeoff_dict, plain_dict] (example_handler
      [Frame (HEARTBEAT 81 4), Frame (MISSION_ACK 0), Idle, Frame (MISSION_REQUEST 1 1 0),
       Frame (MISSION_REQUEST 255 190 0), Frame (VFR_HUD 2), Frame (MISSION_REQUEST 255 190 1),
       Idle, Frame (MISSION_ACK 0), Frame (HEARTBEAT 81 4)]) = Returns True h'
      \<and> map item_seq (sent h') = [None, None, Some 0, Some 1]
      \<and> inbox h' = [Frame (HEARTBEAT 81 4)])"
  using upload_mission_cooperative [of "example_handler
      [Frame (HEARTBEAT 81 4), Frame (MISSION_ACK 0), Idle, Frame (MISSION_REQUEST 1 1 0),
       Frame (MISSION_REQUEST 255 190 0), Frame (VFR_HUD 2), Frame (MISSION_REQUEST 255 190 1),
       Idle, Frame (MISSION_ACK 0), Frame (HEARTBEAT 81 4)]"
      "[takeoff_dict, plain_dict]" "[([Frame (VFR_HUD 2)], MISSION_REQUEST 255 190 1)]"
      "[Frame (HEARTBEAT 81 4)]" 0 "[Idle, Frame (MISSION_REQUEST 1 1 0)]" 0 "[Idle]" 0
      "[Frame (HEARTBEAT 81 4)]"]
  by (auto simp add: example_handler_def mission_item_def)

text \<open>
  The claim as stated fails on two runs with two waypoints, both returning \<open>True\<close>. In
  the first the vehicle never acknowledges the upload (the only acknowledgment answers
  the clear), and item 1 is sent in answer to a request for index 0 addressed to system
  7, component 7, which is not discarded. In the second the vehicle acknowledges after
  the first item and a single item is sent.
\<close>

theorem upload_mission_counterexample:
  "(case upload_mission [plain_dict, plain_dict]
          (example_handler [Frame (MISSION_ACK 0), Frame (MISSION_REQUEST 255 190 0),
             Frame (MISSION_REQUEST 7 7 0), Frame (MISSION_REQUEST 255 190 1)]) of
      Returns ok h' \<Rightarrow>
        ok \<and> map item_seq (sent h') = [None, None, Some 0, Some 1] \<and> inbox h' = []
    | _ \<Rightarrow> False)
   \<and> (case upload_mission [plain_dict, plain_dict]
          (example_handler [Frame (MISSION_ACK 0), Frame (MISSION_REQUEST 255 190 0),
             Frame (MISSION_ACK 0)]) of
      Returns ok h' \<Rightarrow> ok \<and> map item_seq (sent h') = [None, None, Some 0] \<and> inbox h' = []
    | _ \<Rightarrow> False)"
  by (simp add: upload_mission_def example_handler_def send_def recv_match_def
      post_message_def mission_item_def)

end
